theory Spec2Isabelle
  imports Main "HOL-Library.Word"
begin

section \<open>The schema parser of sqldef (schema/parser.go)\<close>

text \<open>
  A shallow embedding of \<^verbatim>\<open>schema/parser.go\<close>: the functions \<^verbatim>\<open>castBool\<close>,
  \<^verbatim>\<open>parseValue\<close>, \<^verbatim>\<open>parseTable\<close>, \<^verbatim>\<open>parseIndex\<close>, \<^verbatim>\<open>parseDDL\<close> and
  \<^verbatim>\<open>parseDDLs\<close>. Go strings are byte sequences and are modelled as \<open>string\<close>
  (a list of 8-bit characters). A nil pointer is \<open>None\<close>. An \<^verbatim>\<open>error\<close> result
  is the left summand of a sum; a run-time panic is the value \<open>Panic\<close>.
\<close>

subsection \<open>Functions of the Go standard library that parser.go calls\<close>

text \<open>
  \<^verbatim>\<open>strconv.ParseBool\<close> and \<^verbatim>\<open>fmt.Sprint\<close> on a value of kind bool.
\<close>

datatype NumError = ErrSyntax | ErrRange

definition ParseBool :: "string \<Rightarrow> bool \<times> NumError option" where
  "ParseBool str =
     (if str \<in> set [''1'', ''t'', ''T'', ''TRUE'', ''true'', ''True''] then (True, None)
      else if str \<in> set [''0'', ''f'', ''F'', ''FALSE'', ''false'', ''False''] then (False, None)
      else (False, Some ErrSyntax))"

definition Sprint_bool :: "bool \<Rightarrow> string" where
  "Sprint_bool b = (if b then ''true'' else ''false'')"

text \<open>
  \<^verbatim>\<open>strconv.Atoi\<close>, for the 64-bit \<^verbatim>\<open>int\<close>. \<^verbatim>\<open>ParseUint\<close> scans the
  bytes from the left with a 64-bit unsigned accumulator (an \<open>int\<close> here, reduced
  modulo \<open>2 ^ 64\<close> where the Go addition wraps): a byte that is not a decimal digit
  ends the scan with \<open>(0, ErrSyntax)\<close>, an accumulator that would leave the 64 bits
  ends it with \<open>(maxUint64, ErrRange)\<close>, whichever comes first. \<^verbatim>\<open>ParseInt\<close>
  strips one sign, and on a magnitude that does not fit the signed range returns the
  nearest bound together with \<open>ErrRange\<close>. \<^verbatim>\<open>Atoi\<close> is \<^verbatim>\<open>ParseInt(s, 10, 0)\<close>
  (its fast path for short inputs returns the same pairs).
\<close>

definition maxUint64 :: int where
  "maxUint64 = 2 ^ 64 - 1"

fun ParseUint_loop :: "string \<Rightarrow> int \<Rightarrow> int \<times> NumError option" where
  "ParseUint_loop [] n = (n, None)"
| "ParseUint_loop (c # cs) n =
     (if \<not> (48 \<le> (of_char c :: int) \<and> (of_char c :: int) \<le> 57) then (0, Some ErrSyntax)
      else if n \<ge> maxUint64 div 10 + 1 then (maxUint64, Some ErrRange)
      else
        (let n10 = n * 10;
             n1 = (n10 + (of_char c - 48)) mod 2 ^ 64
         in if n1 < n10 \<or> n1 > maxUint64 then (maxUint64, Some ErrRange)
            else ParseUint_loop cs n1))"

definition ParseUint :: "string \<Rightarrow> int \<times> NumError option" where
  "ParseUint s = (if s = [] then (0, Some ErrSyntax) else ParseUint_loop s 0)"

definition ParseInt :: "string \<Rightarrow> int \<times> NumError option" where
  "ParseInt s =
     (if s = [] then (0, Some ErrSyntax)
      else
        (let neg = (hd s = CHR ''-'');
             s' = (if hd s = CHR ''+'' \<or> hd s = CHR ''-'' then tl s else s);
             (un, err) = ParseUint s';
             cutoff = (2 :: int) ^ 63
         in if err = Some ErrSyntax then (0, err)
            else if \<not> neg \<and> un \<ge> cutoff then (cutoff - 1, Some ErrRange)
            else if neg \<and> un > cutoff then (- cutoff, Some ErrRange)
            else (if neg then - un else un, None)))"

definition Atoi :: "string \<Rightarrow> int \<times> NumError option" where
  "Atoi s = ParseInt s"

text \<open>
  \<^verbatim>\<open>strings.Split\<close> with a one-byte separator: the pieces between the
  separators, in order; an input without separator is the only piece.
\<close>

fun Split_from :: "char \<Rightarrow> string \<Rightarrow> string \<Rightarrow> string list" where
  "Split_from sep cur [] = [cur]"
| "Split_from sep cur (c # cs) =
     (if c = sep then cur # Split_from sep [] cs else Split_from sep (cur @ [c]) cs)"

definition Split :: "string \<Rightarrow> char \<Rightarrow> string list" where
  "Split s sep = Split_from sep [] s"

text \<open>
  \<^verbatim>\<open>strings.TrimSpace\<close>: it removes the leading and the trailing runes for which
  \<^verbatim>\<open>unicode.IsSpace\<close> holds. \<open>spaceRunes\<close> lists the UTF-8 encodings of these 25
  code points (U+0009 to U+000D, U+0020, U+0085, U+00A0, U+1680, U+2000 to U+200A,
  U+2028, U+2029, U+202F, U+205F, U+3000). A byte sequence that is not valid UTF-8
  decodes to the rune error, which is no space, so trimming stops there.
\<close>

definition spaceRunes :: "string list" where
  "spaceRunes =
     [[CHR 0x09], [CHR 0x0A], [CHR 0x0B], [CHR 0x0C], [CHR 0x0D], [CHR 0x20],
      [CHR 0xC2, CHR 0x85], [CHR 0xC2, CHR 0xA0], [CHR 0xE1, CHR 0x9A, CHR 0x80],
      [CHR 0xE2, CHR 0x80, CHR 0x80], [CHR 0xE2, CHR 0x80, CHR 0x81],
      [CHR 0xE2, CHR 0x80, CHR 0x82], [CHR 0xE2, CHR 0x80, CHR 0x83],
      [CHR 0xE2, CHR 0x80, CHR 0x84], [CHR 0xE2, CHR 0x80, CHR 0x85],
      [CHR 0xE2, CHR 0x80, CHR 0x86], [CHR 0xE2, CHR 0x80, CHR 0x87],
      [CHR 0xE2, CHR 0x80, CHR 0x88], [CHR 0xE2, CHR 0x80, CHR 0x89],
      [CHR 0xE2, CHR 0x80, CHR 0x8A], [CHR 0xE2, CHR 0x80, CHR 0xA8],
      [CHR 0xE2, CHR 0x80, CHR 0xA9], [CHR 0xE2, CHR 0x80, CHR 0xAF],
      [CHR 0xE2, CHR 0x81, CHR 0x9F], [CHR 0xE3, CHR 0x80, CHR 0x80]]"

function stripLeading :: "string list \<Rightarrow> string \<Rightarrow> string" where
  "stripLeading tab s =
     (case List.find (\<lambda>p. p \<noteq> [] \<and> take (length p) s = p) tab of
        None \<Rightarrow> s
      | Some p \<Rightarrow> stripLeading tab (drop (length p) s))"
  by pat_completeness auto
termination
proof (relation "measure (\<lambda>(tab, s). length s)")
  show "wf (measure (\<lambda>(tab, s). length s))" by simp
next
  fix tab :: "string list" and s p :: string
  assume "List.find (\<lambda>p. p \<noteq> [] \<and> take (length p) s = p) tab = Some p"
  then have p: "p \<noteq> []" "take (length p) s = p"
    by (auto simp: find_Some_iff)
  then have "s \<noteq> []" by auto
  with p show "((tab, drop (length p) s), (tab, s)) \<in> measure (\<lambda>(tab, s). length s)"
    by (cases p) auto
qed

declare stripLeading.simps [simp del]

definition TrimSpace :: "string \<Rightarrow> string" where
  "TrimSpace s = rev (stripLeading (map rev spaceRunes) (rev (stripLeading spaceRunes s)))"

subsection \<open>The syntax tree of package sqlparser\<close>

text \<open>
  Modelled from the spec: the declarations of package \<^verbatim>\<open>sqlparser\<close> (the grammar
  collaborator) are not part of \<^verbatim>\<open>parser.go\<close>. Each record has the fields that
  \<^verbatim>\<open>parser.go\<close> reads, under their Go names. \<^verbatim>\<open>ValType\<close> is an integer type with
  seven named constants, so a literal can carry a tag outside them. The fields
  \<^verbatim>\<open>TableSpec\<close> and \<^verbatim>\<open>IndexSpec\<close> of a DDL node are pointers: \<open>None\<close> is nil.
  \<^verbatim>\<open>String()\<close> of an identifier returns its text.
\<close>

type_synonym ValType = int

definition StrVal :: ValType where "StrVal = 0"
definition IntVal :: ValType where "IntVal = 1"
definition FloatVal :: ValType where "FloatVal = 2"
definition HexNum :: ValType where "HexNum = 3"
definition HexVal :: ValType where "HexVal = 4"
definition ValArg :: ValType where "ValArg = 5"
definition BitVal :: ValType where "BitVal = 6"

record SQLVal =
  Type :: ValType
  Val :: string

type_synonym BoolVal = bool
type_synonym ColIdent = string
type_synonym TableIdent = string

definition ColIdent_String :: "ColIdent \<Rightarrow> string" where
  "ColIdent_String c = c"

definition TableIdent_String :: "TableIdent \<Rightarrow> string" where
  "TableIdent_String t = t"

record TableName =
  Name :: TableIdent

record ColumnType =
  Type :: string
  NotNull :: BoolVal
  Autoincrement :: BoolVal
  Default :: "SQLVal option"
  Length :: "SQLVal option"
  Unsigned :: BoolVal
  Scale :: "SQLVal option"
  KeyOpt :: int

record ColumnDefinition =
  Name :: ColIdent
  Type :: ColumnType

record IndexInfo =
  Type :: string
  Name :: ColIdent
  Primary :: bool
  Unique :: bool

record sqlparser_IndexColumn =
  Column :: ColIdent
  Length :: "SQLVal option"

record IndexDefinition =
  Info :: IndexInfo
  Columns :: "sqlparser_IndexColumn list"

record TableSpec =
  Columns :: "ColumnDefinition list"
  Indexes :: "IndexDefinition list"

record IndexSpec =
  Name :: ColIdent
  Unique :: bool

record sqlparser_DDL =
  Action :: string
  Table :: TableName
  NewName :: TableName
  TableSpec :: "TableSpec option"
  IndexSpec :: "IndexSpec option"
  IndexCols :: "ColIdent list"

text \<open>
  A \<^verbatim>\<open>sqlparser.Statement\<close> is an interface; \<^verbatim>\<open>parseDDL\<close> only asks whether
  its dynamic type is \<^verbatim>\<open>*sqlparser.DDL\<close>. Every other statement kind is
  \<open>OtherStatement\<close>, with an opaque payload.
\<close>

datatype Statement = DDLStatement sqlparser_DDL | OtherStatement string

datatype ParserMode = ParserModeMysql | ParserModePostgres

subsection \<open>The schema model of package schema\<close>

text \<open>
  Modelled from the spec: the declarations of \<^verbatim>\<open>Value\<close>, \<^verbatim>\<open>Column\<close>,
  \<^verbatim>\<open>IndexColumn\<close>, \<^verbatim>\<open>Index\<close>, \<^verbatim>\<open>Table\<close>, the \<^verbatim>\<open>DDL\<close> variants and
  \<^verbatim>\<open>GeneratorMode\<close> are not part of \<^verbatim>\<open>parser.go\<close>. The fields are those that
  \<^verbatim>\<open>parser.go\<close> writes. A \<^verbatim>\<open>float64\<close> is its 64 bits, and the zero value of a
  field is the zero of its type. \<^verbatim>\<open>GeneratorMode\<close> is an integer type with two
  named constants.
\<close>

datatype ValueType =
  ValueTypeStr | ValueTypeInt | ValueTypeFloat | ValueTypeHexNum | ValueTypeHex
  | ValueTypeValArg | ValueTypeBit

type_synonym float64 = "64 word"

record Value =
  valueType :: ValueType
  raw :: string
  strVal :: string
  intVal :: int
  floatVal :: float64
  bitVal :: bool

record Column =
  name :: string
  typeName :: string
  unsigned :: bool
  notNull :: bool
  autoIncrement :: bool
  defaultVal :: "Value option"
  length' :: "Value option"
  scale :: "Value option"
  keyOption :: int

record IndexColumn =
  column :: string
  length' :: "Value option"

record Index =
  name :: string
  indexType :: string
  columns :: "IndexColumn list"
  primary :: bool
  unique :: bool

record Table =
  name :: string
  columns :: "Column list"
  indexes :: "Index list"

datatype DDL =
  CreateTable string Table
  | CreateIndex string string Index
  | AddIndex string string Index
  | AddPrimaryKey string string Index

type_synonym GeneratorMode = int

definition GeneratorModeMysql :: GeneratorMode where "GeneratorModeMysql = 0"
definition GeneratorModePostgres :: GeneratorMode where "GeneratorModePostgres = 1"

text \<open>
  The errors that \<^verbatim>\<open>parser.go\<close> returns. \<open>SyntaxError\<close> is an error of
  \<^verbatim>\<open>sqlparser.ParseWithMode\<close>, passed on as it is. The other three are the
  \<^verbatim>\<open>fmt.Errorf\<close> calls of \<^verbatim>\<open>parseIndex\<close> and \<^verbatim>\<open>parseDDL\<close>, each with the
  arguments it formats. The text of a message is not modelled; that of
  \<open>MissingIndexSpec\<close> renders the node with \<^verbatim>\<open>%#v\<close>, which prints a pointer field
  that is not nil as its address.
\<close>

datatype error =
  SyntaxError string
  | MissingIndexSpec sqlparser_DDL
  | UnsupportedAction string string
  | UnsupportedStatement string

datatype 'a outcome = Return 'a | Panic

text \<open>
  The collaborators that the functions call and this file does not model:
  \<^verbatim>\<open>sqlparser.ParseWithMode\<close> (the grammar) and \<^verbatim>\<open>strconv.ParseFloat\<close> with
  bit size 64 (floating point).
\<close>

record extern =
  ParseWithMode :: "string \<Rightarrow> ParserMode \<Rightarrow> error + Statement"
  ParseFloat :: "string \<Rightarrow> float64 \<times> NumError option"

subsection \<open>The functions of parser.go\<close>

definition castBool :: "BoolVal \<Rightarrow> bool" where
  "castBool val = fst (ParseBool (Sprint_bool val))"

definition parseValue :: "extern \<Rightarrow> SQLVal option \<Rightarrow> Value option" where
  "parseValue X val =
     (case val of
        None \<Rightarrow> None
      | Some v \<Rightarrow>
          (case (if SQLVal.Type v = StrVal then Some ValueTypeStr
                 else if SQLVal.Type v = IntVal then Some ValueTypeInt
                 else if SQLVal.Type v = FloatVal then Some ValueTypeFloat
                 else if SQLVal.Type v = HexNum then Some ValueTypeHexNum
                 else if SQLVal.Type v = HexVal then Some ValueTypeHex
                 else if SQLVal.Type v = ValArg then Some ValueTypeValArg
                 else if SQLVal.Type v = BitVal then Some ValueTypeBit
                 else None) of
             None \<Rightarrow> None
           | Some vt \<Rightarrow>
               (let ret = \<lparr>valueType = vt, raw = Val v, strVal = [], intVal = 0,
                            floatVal = 0, bitVal = False\<rparr>
                in Some (case vt of
                     ValueTypeStr \<Rightarrow> ret\<lparr>strVal := Val v\<rparr>
                   | ValueTypeInt \<Rightarrow> ret\<lparr>intVal := fst (Atoi (Val v))\<rparr>
                   | ValueTypeFloat \<Rightarrow> ret\<lparr>floatVal := fst (ParseFloat X (Val v))\<rparr>
                   | ValueTypeBit \<Rightarrow>
                       (if Val v = ''1'' then ret\<lparr>bitVal := True\<rparr> else ret\<lparr>bitVal := False\<rparr>)
                   | _ \<Rightarrow> ret))))"

text \<open>
  The two loops of \<^verbatim>\<open>parseTable\<close> and the loop of \<^verbatim>\<open>parseIndex\<close> append one
  element to a slice per iteration: a left fold whose step is the loop body.
  \<^verbatim>\<open>stmt.TableSpec.Columns\<close> dereferences \<^verbatim>\<open>stmt.TableSpec\<close> before the first
  iteration: on nil the function panics.
\<close>

definition parseTable :: "extern \<Rightarrow> sqlparser_DDL \<Rightarrow> Table outcome" where
  "parseTable X stmt =
     (case TableSpec stmt of
        None \<Rightarrow> Panic
      | Some spec \<Rightarrow>
          (let columns =
                 foldl (\<lambda>columns parsedCol.
                          columns @
                          [\<lparr>Column.name = ColIdent_String (ColumnDefinition.Name parsedCol),
                            typeName = ColumnType.Type (ColumnDefinition.Type parsedCol),
                            unsigned = castBool (Unsigned (ColumnDefinition.Type parsedCol)),
                            notNull = castBool (NotNull (ColumnDefinition.Type parsedCol)),
                            autoIncrement = castBool (Autoincrement (ColumnDefinition.Type parsedCol)),
                            defaultVal = parseValue X (Default (ColumnDefinition.Type parsedCol)),
                            length' = parseValue X (ColumnType.Length (ColumnDefinition.Type parsedCol)),
                            scale = parseValue X (Scale (ColumnDefinition.Type parsedCol)),
                            keyOption = KeyOpt (ColumnDefinition.Type parsedCol)\<rparr>])
                       [] (TableSpec.Columns spec);
               indexes =
                 foldl (\<lambda>indexes indexDef.
                          (let indexColumns =
                                 foldl (\<lambda>indexColumns column.
                                          indexColumns @
                                          [\<lparr>IndexColumn.column = ColIdent_String (Column column),
                                            length' = parseValue X (sqlparser_IndexColumn.Length column)\<rparr>])
                                       [] (IndexDefinition.Columns indexDef);
                               index = \<lparr>Index.name = ColIdent_String (IndexInfo.Name (Info indexDef)),
                                        indexType = IndexInfo.Type (Info indexDef),
                                        columns = indexColumns,
                                        primary = Primary (Info indexDef),
                                        unique = IndexInfo.Unique (Info indexDef)\<rparr>
                           in indexes @ [index]))
                       [] (Indexes spec)
           in Return \<lparr>Table.name = TableIdent_String (TableName.Name (NewName stmt)),
                      columns = columns,
                      indexes = indexes\<rparr>))"

definition parseIndex :: "sqlparser_DDL \<Rightarrow> error + Index" where
  "parseIndex stmt =
     (case IndexSpec stmt of
        None \<Rightarrow> Inl (MissingIndexSpec stmt)
      | Some spec \<Rightarrow>
          (let indexColumns =
                 foldl (\<lambda>indexColumns colIdent.
                          indexColumns @
                          [\<lparr>IndexColumn.column = ColIdent_String colIdent, length' = None\<rparr>])
                       [] (IndexCols stmt)
           in Inr \<lparr>Index.name = ColIdent_String (IndexSpec.Name spec),
                   indexType = [],
                   columns = indexColumns,
                   primary = False,
                   unique = IndexSpec.Unique spec\<rparr>))"

definition parseDDL :: "extern \<Rightarrow> GeneratorMode \<Rightarrow> string \<Rightarrow> (error + DDL) outcome" where
  "parseDDL X mode ddl =
     (let parserMode =
            (if mode = GeneratorModePostgres then ParserModePostgres else ParserModeMysql)
      in case ParseWithMode X ddl parserMode of
           Inl err \<Rightarrow> Return (Inl err)
         | Inr (DDLStatement stmt) \<Rightarrow>
             (if Action stmt = ''create'' then
                (case parseTable X stmt of
                   Panic \<Rightarrow> Panic
                 | Return table \<Rightarrow> Return (Inr (CreateTable ddl table)))
              else if Action stmt = ''create index'' then
                (case parseIndex stmt of
                   Inl err \<Rightarrow> Return (Inl err)
                 | Inr index \<Rightarrow>
                     Return (Inr (CreateIndex ddl
                       (TableIdent_String (TableName.Name (Table stmt))) index)))
              else if Action stmt = ''add index'' then
                (case parseIndex stmt of
                   Inl err \<Rightarrow> Return (Inl err)
                 | Inr index \<Rightarrow>
                     Return (Inr (AddIndex ddl
                       (TableIdent_String (TableName.Name (Table stmt))) index)))
              else if Action stmt = ''add primary key'' then
                (case parseIndex stmt of
                   Inl err \<Rightarrow> Return (Inl err)
                 | Inr index \<Rightarrow>
                     Return (Inr (AddPrimaryKey ddl
                       (TableIdent_String (TableName.Name (Table stmt))) index)))
              else Return (Inl (UnsupportedAction (Action stmt) ddl)))
         | Inr (OtherStatement other) \<Rightarrow> Return (Inl (UnsupportedStatement ddl)))"

text \<open>
  The loop of \<^verbatim>\<open>parseDDLs\<close> over the pieces of the input, with the slice
  \<^verbatim>\<open>result\<close> as its state: \<^verbatim>\<open>continue\<close> on a piece that is empty once
  trimmed, \<^verbatim>\<open>return result, err\<close> on the first error. A panic of \<^verbatim>\<open>parseDDL\<close>
  leaves the loop and the function without a result.
\<close>

fun parseDDLs_loop ::
  "extern \<Rightarrow> GeneratorMode \<Rightarrow> string list \<Rightarrow> DDL list \<Rightarrow> (DDL list \<times> error option) outcome"
where
  "parseDDLs_loop X mode [] result = Return (result, None)"
| "parseDDLs_loop X mode (piece # ddls) result =
     (let ddl = TrimSpace piece
      in if length ddl = 0 then parseDDLs_loop X mode ddls result
         else
           (case parseDDL X mode ddl of
              Panic \<Rightarrow> Panic
            | Return (Inl err) \<Rightarrow> Return (result, Some err)
            | Return (Inr parsed) \<Rightarrow> parseDDLs_loop X mode ddls (result @ [parsed])))"

definition parseDDLs ::
  "extern \<Rightarrow> GeneratorMode \<Rightarrow> string \<Rightarrow> (DDL list \<times> error option) outcome"
where
  "parseDDLs X mode str = parseDDLs_loop X mode (Split str (CHR '';'')) []"

subsection \<open>Notions of the specification\<close>

text \<open>
  The decimal reading of a string of digits, for the statement that an Integer
  literal is parsed as a base-10 integer.
\<close>

definition digits :: "string \<Rightarrow> bool" where
  "digits s = list_all (\<lambda>c. 48 \<le> (of_char c :: int) \<and> (of_char c :: int) \<le> 57) s"

definition decimal :: "string \<Rightarrow> int" where
  "decimal s = foldl (\<lambda>n c. n * 10 + (of_char c - 48)) 0 s"

text \<open>
  The splitter as the specification words it: the candidate statements of a batch
  are its pieces between semicolons, trimmed, without those that are empty once
  trimmed; they are dispatched in order up to the first failure. \<open>dispatchInOrder\<close>
  does not look at a candidate behind the first failure.
\<close>

definition candidates :: "string \<Rightarrow> string list" where
  "candidates batchText = filter (\<lambda>c. c \<noteq> []) (map TrimSpace (Split batchText (CHR '';'')))"

fun dispatchInOrder ::
  "(string \<Rightarrow> (error + DDL) outcome) \<Rightarrow> string list \<Rightarrow> (DDL list \<times> error option) outcome"
where
  "dispatchInOrder dispatch [] = Return ([], None)"
| "dispatchInOrder dispatch (c # cs) =
     (case dispatch c of
        Panic \<Rightarrow> Panic
      | Return (Inl err) \<Rightarrow> Return ([], Some err)
      | Return (Inr d) \<Rightarrow>
          (case dispatchInOrder dispatch cs of
             Panic \<Rightarrow> Panic
           | Return (ds, e) \<Rightarrow> Return (d # ds, e)))"

text \<open>
  A string starts, or ends, with a rune for which \<^verbatim>\<open>unicode.IsSpace\<close> holds.
\<close>

definition leadingSpace :: "string \<Rightarrow> bool" where
  "leadingSpace s = (\<exists>p \<in> set spaceRunes. take (length p) s = p)"

definition trailingSpace :: "string \<Rightarrow> bool" where
  "trailingSpace s = (\<exists>p \<in> set spaceRunes. take (length p) (rev s) = rev p)"

subsection \<open>Sample syntax trees and a sample grammar\<close>

text \<open>
  The syntax trees of some statements, and a grammar that knows these statements
  only. The statement with \<^verbatim>\<open>UNSIGNED\<close> is accepted in MySQL mode alone.
  \<open>sampleNoSpecNode\<close> is a node with the action tag of \<^verbatim>\<open>CREATE INDEX\<close> and
  no index specification.
\<close>

definition sampleTableSpec :: TableSpec where
  "sampleTableSpec =
     \<lparr>TableSpec.Columns =
       [\<lparr>ColumnDefinition.Name = ''a'',
         Type = \<lparr>ColumnType.Type = ''int'', NotNull = False, Autoincrement = False,
                 Default = Some \<lparr>SQLVal.Type = IntVal, Val = ''7''\<rparr>, Length = None,
                 Unsigned = False, Scale = None, KeyOpt = 0\<rparr>\<rparr>,
        \<lparr>ColumnDefinition.Name = ''b'',
         Type = \<lparr>ColumnType.Type = ''varchar'', NotNull = True, Autoincrement = False,
                 Default = None,
                 Length = Some \<lparr>SQLVal.Type = IntVal, Val = ''10''\<rparr>,
                 Unsigned = False, Scale = None, KeyOpt = 0\<rparr>\<rparr>,
        \<lparr>ColumnDefinition.Name = ''a'',
         Type = \<lparr>ColumnType.Type = ''int'', NotNull = False, Autoincrement = False,
                 Default = None, Length = None, Unsigned = False, Scale = None,
                 KeyOpt = 0\<rparr>\<rparr>],
     Indexes =
       [\<lparr>Info = \<lparr>IndexInfo.Type = ''key'', Name = ''b_idx'', Primary = False, Unique = False\<rparr>,
         Columns = [\<lparr>Column = ''b'', Length = Some \<lparr>SQLVal.Type = IntVal, Val = ''5''\<rparr>\<rparr>,
                    \<lparr>Column = ''a'', Length = None\<rparr>]\<rparr>]\<rparr>"

definition sampleTableNode :: sqlparser_DDL where
  "sampleTableNode =
     \<lparr>Action = ''create'', Table = \<lparr>TableName.Name = []\<rparr>,
      NewName = \<lparr>TableName.Name = ''t''\<rparr>, TableSpec = Some sampleTableSpec,
      IndexSpec = None, IndexCols = []\<rparr>"

definition sampleIndexNode :: sqlparser_DDL where
  "sampleIndexNode =
     \<lparr>Action = ''create index'', Table = \<lparr>TableName.Name = ''t''\<rparr>,
      NewName = \<lparr>TableName.Name = ''t''\<rparr>, TableSpec = None,
      IndexSpec = Some \<lparr>IndexSpec.Name = ''idx'', Unique = True\<rparr>, IndexCols = [''col'', ''b'']\<rparr>"

definition sampleDropNode :: sqlparser_DDL where
  "sampleDropNode =
     \<lparr>Action = ''drop'', Table = \<lparr>TableName.Name = ''t''\<rparr>,
      NewName = \<lparr>TableName.Name = ''''\<rparr>, TableSpec = None, IndexSpec = None, IndexCols = []\<rparr>"

definition sampleUnsignedNode :: sqlparser_DDL where
  "sampleUnsignedNode =
     \<lparr>Action = ''create'', Table = \<lparr>TableName.Name = ''''\<rparr>, NewName = \<lparr>TableName.Name = ''u''\<rparr>,
      TableSpec = Some
        \<lparr>TableSpec.Columns =
           [\<lparr>ColumnDefinition.Name = ''id'',
             Type = \<lparr>ColumnType.Type = ''int'', NotNull = False, Autoincrement = False,
                     Default = None, Length = None, Unsigned = True, Scale = None,
                     KeyOpt = 0\<rparr>\<rparr>],
         Indexes = []\<rparr>,
      IndexSpec = None, IndexCols = []\<rparr>"

definition sampleNoSpecNode :: sqlparser_DDL where
  "sampleNoSpecNode =
     \<lparr>Action = ''create index'', Table = \<lparr>TableName.Name = ''t''\<rparr>,
      NewName = \<lparr>TableName.Name = ''t''\<rparr>, TableSpec = None, IndexSpec = None,
      IndexCols = [''col'']\<rparr>"

definition sampleGrammar :: "string \<Rightarrow> ParserMode \<Rightarrow> error + Statement" where
  "sampleGrammar text pm =
     (if text = ''CREATE TABLE t (a INT DEFAULT 7, b VARCHAR(10) NOT NULL, a INT, KEY b_idx (b(5), a))''
        then Inr (DDLStatement sampleTableNode)
      else if text = ''CREATE UNIQUE INDEX idx ON t (col, b)''
        then Inr (DDLStatement sampleIndexNode)
      else if text = ''DROP TABLE t''
        then Inr (DDLStatement sampleDropNode)
      else if text = ''CREATE TABLE u (id INT UNSIGNED)''
        then (if pm = ParserModeMysql then Inr (DDLStatement sampleUnsignedNode)
              else Inl (SyntaxError ''syntax error near UNSIGNED''))
      else if text = ''SELECT 1''
        then Inr (OtherStatement ''select'')
      else Inl (SyntaxError ''syntax error''))"

definition sampleParseFloat :: "string \<Rightarrow> float64 \<times> NumError option" where
  "sampleParseFloat s =
     (if s = ''1.5'' then (0x3FF8000000000000, None) else (0, Some ErrSyntax))"

definition sampleExtern :: extern where
  "sampleExtern = \<lparr>ParseWithMode = sampleGrammar, ParseFloat = sampleParseFloat\<rparr>"



section \<open>Properties\<close>

subsection \<open>Auxiliary facts\<close>

lemma castBool_id: "castBool b = b"
  by (cases b) (simp_all add: castBool_def ParseBool_def Sprint_bool_def)

lemma foldl_append_map: "foldl (\<lambda>acc x. acc @ [f x]) acc xs = acc @ map f xs"
  by (induction xs arbitrary: acc) simp_all

lemma ValType_distinct:
  "StrVal \<noteq> IntVal" "StrVal \<noteq> FloatVal" "StrVal \<noteq> HexNum" "StrVal \<noteq> HexVal"
  "StrVal \<noteq> ValArg" "StrVal \<noteq> BitVal" "IntVal \<noteq> FloatVal" "IntVal \<noteq> HexNum"
  "IntVal \<noteq> HexVal" "IntVal \<noteq> ValArg" "IntVal \<noteq> BitVal" "FloatVal \<noteq> HexNum"
  "FloatVal \<noteq> HexVal" "FloatVal \<noteq> ValArg" "FloatVal \<noteq> BitVal" "HexNum \<noteq> HexVal"
  "HexNum \<noteq> ValArg" "HexNum \<noteq> BitVal" "HexVal \<noteq> ValArg" "HexVal \<noteq> BitVal"
  "ValArg \<noteq> BitVal"
  by (simp_all add: StrVal_def IntVal_def FloatVal_def HexNum_def HexVal_def ValArg_def
      BitVal_def)

text \<open>The value extractor, one equation per literal kind.\<close>

lemma parseValue_Str:
  "SQLVal.Type v = StrVal \<Longrightarrow> parseValue X (Some v) =
     Some \<lparr>valueType = ValueTypeStr, raw = Val v, strVal = Val v, intVal = 0,
           floatVal = 0, bitVal = False\<rparr>"
  by (simp add: parseValue_def)

lemma parseValue_Int:
  "SQLVal.Type v = IntVal \<Longrightarrow> parseValue X (Some v) =
     Some \<lparr>valueType = ValueTypeInt, raw = Val v, strVal = [], intVal = fst (Atoi (Val v)),
           floatVal = 0, bitVal = False\<rparr>"
  using ValType_distinct by (simp add: parseValue_def)

lemma parseValue_Float:
  "SQLVal.Type v = FloatVal \<Longrightarrow> parseValue X (Some v) =
     Some \<lparr>valueType = ValueTypeFloat, raw = Val v, strVal = [], intVal = 0,
           floatVal = fst (ParseFloat X (Val v)), bitVal = False\<rparr>"
  using ValType_distinct by (simp add: parseValue_def)

lemma parseValue_HexNum:
  "SQLVal.Type v = HexNum \<Longrightarrow> parseValue X (Some v) =
     Some \<lparr>valueType = ValueTypeHexNum, raw = Val v, strVal = [], intVal = 0,
           floatVal = 0, bitVal = False\<rparr>"
  using ValType_distinct by (simp add: parseValue_def)

lemma parseValue_Hex:
  "SQLVal.Type v = HexVal \<Longrightarrow> parseValue X (Some v) =
     Some \<lparr>valueType = ValueTypeHex, raw = Val v, strVal = [], intVal = 0,
           floatVal = 0, bitVal = False\<rparr>"
  using ValType_distinct by (simp add: parseValue_def)

lemma parseValue_ValArg:
  "SQLVal.Type v = ValArg \<Longrightarrow> parseValue X (Some v) =
     Some \<lparr>valueType = ValueTypeValArg, raw = Val v, strVal = [], intVal = 0,
           floatVal = 0, bitVal = False\<rparr>"
  using ValType_distinct by (simp add: parseValue_def)

lemma parseValue_Bit:
  "SQLVal.Type v = BitVal \<Longrightarrow> parseValue X (Some v) =
     Some \<lparr>valueType = ValueTypeBit, raw = Val v, strVal = [], intVal = 0,
           floatVal = 0, bitVal = (Val v = ''1'')\<rparr>"
  using ValType_distinct by (simp add: parseValue_def Let_def)

lemma parseValue_unknown:
  "SQLVal.Type v \<notin> {StrVal, IntVal, FloatVal, HexNum, HexVal, ValArg, BitVal} \<Longrightarrow>
     parseValue X (Some v) = None"
  by (simp add: parseValue_def)

lemma parseValue_Some_raw:
  assumes "parseValue X (Some v) = Some r"
  shows "raw r = Val v"
proof -
  consider "SQLVal.Type v = StrVal" | "SQLVal.Type v = IntVal" | "SQLVal.Type v = FloatVal"
    | "SQLVal.Type v = HexNum" | "SQLVal.Type v = HexVal" | "SQLVal.Type v = ValArg"
    | "SQLVal.Type v = BitVal"
    | "SQLVal.Type v \<notin> {StrVal, IntVal, FloatVal, HexNum, HexVal, ValArg, BitVal}"
    by auto
  then show ?thesis
  proof cases
    case 1 with assms show ?thesis by (auto simp: parseValue_Str)
  next
    case 2 with assms show ?thesis by (auto simp: parseValue_Int)
  next
    case 3 with assms show ?thesis by (auto simp: parseValue_Float)
  next
    case 4 with assms show ?thesis by (auto simp: parseValue_HexNum)
  next
    case 5 with assms show ?thesis by (auto simp: parseValue_Hex)
  next
    case 6 with assms show ?thesis by (auto simp: parseValue_ValArg)
  next
    case 7 with assms show ?thesis by (auto simp: parseValue_Bit)
  next
    case 8 with assms show ?thesis by (simp add: parseValue_unknown)
  qed
qed

text \<open>The results of \<^verbatim>\<open>strconv.Atoi\<close>.\<close>

lemma ParseUint_loop_syntax:
  "snd (ParseUint_loop s n) = Some ErrSyntax \<Longrightarrow> fst (ParseUint_loop s n) = 0"
  by (induction s arbitrary: n) (auto simp: Let_def split: if_splits)

lemma ParseUint_loop_nonneg: "0 \<le> n \<Longrightarrow> 0 \<le> fst (ParseUint_loop s n)"
  by (induction s arbitrary: n) (auto simp: Let_def maxUint64_def)

lemma ParseUint_nonneg: "0 \<le> fst (ParseUint s)"
  by (simp add: ParseUint_def ParseUint_loop_nonneg)

lemma Atoi_syntax: "snd (Atoi s) = Some ErrSyntax \<Longrightarrow> fst (Atoi s) = 0"
  by (auto simp: Atoi_def ParseInt_def Let_def split: if_splits prod.splits)

lemma Atoi_range:
  "snd (Atoi s) = Some ErrRange \<Longrightarrow> fst (Atoi s) = 2 ^ 63 - 1 \<or> fst (Atoi s) = - (2 ^ 63)"
  by (auto simp: Atoi_def ParseInt_def Let_def split: if_splits prod.splits)

lemma Atoi_bounds: "- (2 ^ 63) \<le> fst (Atoi s) \<and> fst (Atoi s) \<le> 2 ^ 63 - 1"
proof (cases "s = []")
  case True
  then show ?thesis by (simp add: Atoi_def ParseInt_def)
next
  case False
  obtain un err where p:
    "ParseUint (if hd s = CHR ''+'' \<or> hd s = CHR ''-'' then tl s else s) = (un, err)"
    by (cases "ParseUint (if hd s = CHR ''+'' \<or> hd s = CHR ''-'' then tl s else s)")
  with ParseUint_nonneg [of "if hd s = CHR ''+'' \<or> hd s = CHR ''-'' then tl s else s"]
  have "0 \<le> un" by simp
  with False p show ?thesis
    by (simp add: Atoi_def ParseInt_def Let_def)
qed

lemma decimal_step_mono:
  "list_all (\<lambda>c. 48 \<le> (of_char c :: int) \<and> (of_char c :: int) \<le> 57) s \<Longrightarrow> 0 \<le> n \<Longrightarrow>
     n \<le> foldl (\<lambda>n c. n * 10 + (of_char c - 48)) (n :: int) s"
proof (induction s arbitrary: n)
  case Nil
  then show ?case by simp
next
  case (Cons c cs)
  let ?m = "n * 10 + (of_char c - 48)"
  from Cons.prems have m: "n \<le> ?m" "0 \<le> ?m" by auto
  from Cons.prems
  have "list_all (\<lambda>c. 48 \<le> (of_char c :: int) \<and> (of_char c :: int) \<le> 57) cs" by simp
  from Cons.IH [OF this m(2)] m(1) show ?case by simp
qed

lemma ParseUint_loop_decimal:
  "list_all (\<lambda>c. 48 \<le> (of_char c :: int) \<and> (of_char c :: int) \<le> 57) s \<Longrightarrow> 0 \<le> n \<Longrightarrow>
     foldl (\<lambda>n c. n * 10 + (of_char c - 48)) (n :: int) s \<le> maxUint64 \<Longrightarrow>
     ParseUint_loop s n = (foldl (\<lambda>n c. n * 10 + (of_char c - 48)) n s, None)"
proof (induction s arbitrary: n)
  case Nil
  then show ?case by simp
next
  case (Cons c cs)
  let ?d = "of_char c - 48 :: int"
  let ?m = "n * 10 + ?d"
  from Cons.prems have c: "48 \<le> (of_char c :: int)" "(of_char c :: int) \<le> 57"
    and cs: "list_all (\<lambda>c. 48 \<le> (of_char c :: int) \<and> (of_char c :: int) \<le> 57) cs"
    by simp_all
  from c Cons.prems(2) have m0: "0 \<le> ?m" "n * 10 \<le> ?m" by auto
  from Cons.prems(3)
  have fm: "foldl (\<lambda>n c. n * 10 + (of_char c - 48)) ?m cs \<le> maxUint64" by simp
  from decimal_step_mono [OF cs m0(1)] fm have mle: "?m \<le> maxUint64" by linarith
  then have mlt: "?m < 2 ^ 64" by (simp add: maxUint64_def)
  from mle c Cons.prems(2) have n: "\<not> n \<ge> maxUint64 div 10 + 1"
    by (simp add: maxUint64_def)
  from m0 mlt have md: "?m mod 2 ^ 64 = ?m" by simp
  from Cons.IH [OF cs m0(1) fm] c n md m0 mle show ?case
    by (simp add: Let_def)
qed

lemma ParseUint_decimal:
  assumes "s \<noteq> []" "digits s" "decimal s \<le> 2 ^ 63"
  shows "ParseUint s = (decimal s, None)"
proof -
  from assms(2)
  have d: "list_all (\<lambda>c. 48 \<le> (of_char c :: int) \<and> (of_char c :: int) \<le> 57) s"
    by (simp add: digits_def)
  from assms(3) have "foldl (\<lambda>n c. n * 10 + (of_char c - 48)) 0 s \<le> maxUint64"
    by (simp add: decimal_def maxUint64_def)
  from ParseUint_loop_decimal [OF d _ this] assms(1) show ?thesis
    by (simp add: ParseUint_def decimal_def)
qed

lemma Atoi_decimal:
  assumes "s \<noteq> []" "digits s" "decimal s < 2 ^ 63"
  shows "Atoi s = (decimal s, None)"
proof -
  from assms have p: "ParseUint s = (decimal s, None)"
    by (simp add: ParseUint_decimal)
  from assms(1,2) have h: "hd s \<noteq> CHR ''-''" "hd s \<noteq> CHR ''+''"
    by (cases s; auto simp: digits_def)+
  from p h assms(1,3) show ?thesis
    by (simp add: Atoi_def ParseInt_def Let_def)
qed

lemma Atoi_decimal_neg:
  assumes "s \<noteq> []" "digits s" "decimal s \<le> 2 ^ 63"
  shows "Atoi (CHR ''-'' # s) = (- decimal s, None)"
proof -
  from assms have p: "ParseUint s = (decimal s, None)"
    by (simp add: ParseUint_decimal)
  from p assms(1,3) show ?thesis
    by (simp add: Atoi_def ParseInt_def Let_def)
qed

text \<open>The table builder on a node with a table specification, as two maps.\<close>

lemma parseTable_spec:
  assumes "TableSpec stmt = Some spec"
  shows "parseTable X stmt =
     Return \<lparr>Table.name = TableName.Name (NewName stmt),
             columns = map (\<lambda>parsedCol.
                 \<lparr>Column.name = ColumnDefinition.Name parsedCol,
                   typeName = ColumnType.Type (ColumnDefinition.Type parsedCol),
                   unsigned = Unsigned (ColumnDefinition.Type parsedCol),
                   notNull = NotNull (ColumnDefinition.Type parsedCol),
                   autoIncrement = Autoincrement (ColumnDefinition.Type parsedCol),
                   defaultVal = parseValue X (Default (ColumnDefinition.Type parsedCol)),
                   length' = parseValue X (ColumnType.Length (ColumnDefinition.Type parsedCol)),
                   scale = parseValue X (Scale (ColumnDefinition.Type parsedCol)),
                   keyOption = KeyOpt (ColumnDefinition.Type parsedCol)\<rparr>)
               (TableSpec.Columns spec),
             indexes = map (\<lambda>indexDef.
                 \<lparr>Index.name = IndexInfo.Name (Info indexDef),
                   indexType = IndexInfo.Type (Info indexDef),
                   columns = map (\<lambda>column.
                       \<lparr>IndexColumn.column = Column column,
                         length' = parseValue X (sqlparser_IndexColumn.Length column)\<rparr>)
                     (IndexDefinition.Columns indexDef),
                   primary = Primary (Info indexDef),
                   unique = IndexInfo.Unique (Info indexDef)\<rparr>)
               (Indexes spec)\<rparr>"
  using assms
  by (simp add: parseTable_def foldl_append_map castBool_id ColIdent_String_def
      TableIdent_String_def)

text \<open>
  The dispatcher asks the collaborators for one parse of the statement and for
  \<^verbatim>\<open>ParseFloat\<close>, and for nothing else.
\<close>

lemma parseValue_extern_cong:
  assumes "ParseFloat X = ParseFloat X'"
  shows "parseValue X val = parseValue X' val"
  unfolding parseValue_def assms ..

lemma parseTable_extern_cong:
  assumes "ParseFloat X = ParseFloat X'"
  shows "parseTable X stmt = parseTable X' stmt"
  unfolding parseTable_def parseValue_extern_cong [OF assms] ..

lemma parseDDL_congruence:
  assumes "ParseWithMode X ddl
             (if mode = GeneratorModePostgres then ParserModePostgres else ParserModeMysql)
         = ParseWithMode X' ddl
             (if mode = GeneratorModePostgres then ParserModePostgres else ParserModeMysql)"
    and "ParseFloat X = ParseFloat X'"
  shows "parseDDL X mode ddl = parseDDL X' mode ddl"
  unfolding parseDDL_def Let_def assms(1) parseTable_extern_cong [OF assms(2)] ..

text \<open>
  A \<^verbatim>\<open>create\<close> node without table specification: \<^verbatim>\<open>parseTable\<close> dereferences
  nil, and the panic leaves \<^verbatim>\<open>parseDDL\<close> without a result.
\<close>

lemma parseDDL_create_without_table_spec:
  assumes "ParseWithMode X ddl
             (if mode = GeneratorModePostgres then ParserModePostgres else ParserModeMysql)
         = Inr (DDLStatement stmt)"
    and "Action stmt = ''create''" and "TableSpec stmt = None"
  shows "parseDDL X mode ddl = Panic"
  using assms by (simp add: parseDDL_def parseTable_def)

text \<open>The loop of the splitter against the dispatch of the candidates in order.\<close>

lemma parseDDLs_loop_dispatchInOrder:
  "parseDDLs_loop X mode pieces result =
     (case dispatchInOrder (parseDDL X mode) (filter (\<lambda>c. c \<noteq> []) (map TrimSpace pieces)) of
        Panic \<Rightarrow> Panic
      | Return (ds, e) \<Rightarrow> Return (result @ ds, e))"
proof (induction pieces arbitrary: result)
  case Nil
  show ?case by simp
next
  case (Cons piece ddls)
  show ?case
  proof (cases "TrimSpace piece = []")
    case True
    with Cons.IH [of result] show ?thesis by simp
  next
    case False
    show ?thesis
    proof (cases "parseDDL X mode (TrimSpace piece)")
      case Panic
      with False show ?thesis by simp
    next
      case (Return r)
      show ?thesis
      proof (cases r)
        case (Inl err)
        with Return False show ?thesis by simp
      next
        case (Inr parsed)
        with Return False Cons.IH [of "result @ [parsed]"] show ?thesis
          by (simp split: outcome.splits prod.splits)
      qed
    qed
  qed
qed

lemma parseDDLs_dispatchInOrder:
  "parseDDLs X mode str = dispatchInOrder (parseDDL X mode) (candidates str)"
  by (simp add: parseDDLs_def candidates_def parseDDLs_loop_dispatchInOrder
      split: outcome.splits prod.splits)

lemma dispatchInOrder_all_ok:
  "map dispatch cs = map (\<lambda>d. Return (Inr d)) ds \<Longrightarrow>
     dispatchInOrder dispatch cs = Return (ds, None)"
proof (induction cs arbitrary: ds)
  case Nil
  then show ?case by simp
next
  case (Cons c cs)
  then obtain d ds' where ds: "ds = d # ds'" by (cases ds) auto
  with Cons.prems
  have "dispatch c = Return (Inr d)" "map dispatch cs = map (\<lambda>d. Return (Inr d)) ds'"
    by simp_all
  with Cons.IH [of ds'] ds show ?case by simp
qed

lemma dispatchInOrder_first_failure:
  "map dispatch before = map (\<lambda>d. Return (Inr d)) ds \<Longrightarrow>
   dispatch failing = Return (Inl err) \<Longrightarrow>
     dispatchInOrder dispatch (before @ failing # behind) = Return (ds, Some err)"
proof (induction before arbitrary: ds)
  case Nil
  then show ?case by simp
next
  case (Cons c cs)
  then obtain d ds' where ds: "ds = d # ds'" by (cases ds) auto
  with Cons.prems
  have "dispatch c = Return (Inr d)" "map dispatch cs = map (\<lambda>d. Return (Inr d)) ds'"
    by simp_all
  with Cons.IH [of ds'] Cons.prems(2) ds show ?case by simp
qed

text \<open>The pieces of \<^verbatim>\<open>strings.Split\<close> and the result of \<^verbatim>\<open>strings.TrimSpace\<close>.\<close>

lemma Split_from_join:
  "concat (map (\<lambda>p. sep # p) (Split_from sep cur s)) = sep # cur @ s"
  by (induction s arbitrary: cur) simp_all

lemma Split_from_no_sep:
  "sep \<notin> set cur \<Longrightarrow> \<forall>p \<in> set (Split_from sep cur s). sep \<notin> set p"
proof (induction s arbitrary: cur)
  case Nil
  then show ?case by simp
next
  case (Cons c cs)
  show ?case
  proof (cases "c = sep")
    case True
    with Cons.prems Cons.IH [of "[]"] show ?thesis by simp
  next
    case False
    with Cons.prems have "sep \<notin> set (cur @ [c])" by simp
    from Cons.IH [OF this] False show ?thesis by simp
  qed
qed

lemma Split_join: "concat (map (\<lambda>p. sep # p) (Split s sep)) = sep # s"
  by (simp add: Split_def Split_from_join)

lemma Split_no_sep: "p \<in> set (Split s sep) \<Longrightarrow> sep \<notin> set p"
  using Split_from_no_sep [of sep "[]" s] by (simp add: Split_def)

lemma stripLeading_decomp:
  "\<exists>ps. set ps \<subseteq> set tab \<and> s = concat ps @ stripLeading tab s"
proof (induction tab s rule: stripLeading.induct)
  case (1 tab s)
  show ?case
  proof (cases "List.find (\<lambda>p. p \<noteq> [] \<and> take (length p) s = p) tab")
    case None
    then have "stripLeading tab s = s" by (simp add: stripLeading.simps)
    then have "set [] \<subseteq> set tab \<and> s = concat [] @ stripLeading tab s" by simp
    then show ?thesis by blast
  next
    case (Some p)
    then have p: "p \<in> set tab" "take (length p) s = p"
      by (auto simp: find_Some_iff)
    from Some have st: "stripLeading tab s = stripLeading tab (drop (length p) s)"
      by (simp add: stripLeading.simps)
    from "1.IH" [OF Some] obtain ps where ps: "set ps \<subseteq> set tab"
      "drop (length p) s = concat ps @ stripLeading tab (drop (length p) s)"
      by blast
    have "s = take (length p) s @ drop (length p) s" by simp
    with p(2) ps(2) st have "s = concat (p # ps) @ stripLeading tab s"
      by (metis append.assoc concat.simps(2))
    moreover from p(1) ps(1) have "set (p # ps) \<subseteq> set tab" by simp
    ultimately show ?thesis by blast
  qed
qed

lemma stripLeading_fixed:
  "List.find (\<lambda>p. p \<noteq> [] \<and> take (length p) (stripLeading tab s) = p) tab = None"
proof (induction tab s rule: stripLeading.induct)
  case (1 tab s)
  show ?case
  proof (cases "List.find (\<lambda>p. p \<noteq> [] \<and> take (length p) s = p) tab")
    case None
    then have "stripLeading tab s = s" by (simp add: stripLeading.simps)
    with None show ?thesis by simp
  next
    case (Some p)
    then have "stripLeading tab s = stripLeading tab (drop (length p) s)"
      by (simp add: stripLeading.simps)
    with "1.IH" [OF Some] show ?thesis by simp
  qed
qed

lemma spaceRunes_nonempty: "p \<in> set spaceRunes \<Longrightarrow> p \<noteq> []"
  by (auto simp: spaceRunes_def)

lemma TrimSpace_not_trailing: "\<not> trailingSpace (TrimSpace s)"
proof
  assume "trailingSpace (TrimSpace s)"
  then obtain p where p: "p \<in> set spaceRunes" "take (length p) (rev (TrimSpace s)) = rev p"
    by (auto simp: trailingSpace_def)
  let ?t = "stripLeading (map rev spaceRunes) (rev (stripLeading spaceRunes s))"
  from p have "rev p \<in> set (map rev spaceRunes)" "rev p \<noteq> []"
    "take (length (rev p)) ?t = rev p"
    by (auto simp: TrimSpace_def spaceRunes_nonempty)
  then have "List.find (\<lambda>p. p \<noteq> [] \<and> take (length p) ?t = p) (map rev spaceRunes) \<noteq> None"
    by (auto simp: find_None_iff)
  with stripLeading_fixed [of "map rev spaceRunes" "rev (stripLeading spaceRunes s)"]
  show False by simp
qed

lemma TrimSpace_prefix: "\<exists>r. stripLeading spaceRunes s = TrimSpace s @ r"
proof -
  from stripLeading_decomp [of "map rev spaceRunes" "rev (stripLeading spaceRunes s)"]
  obtain ps where "rev (stripLeading spaceRunes s) = concat ps @ rev (TrimSpace s)"
    by (auto simp: TrimSpace_def)
  then have "rev (rev (stripLeading spaceRunes s)) = rev (concat ps @ rev (TrimSpace s))"
    by simp
  then have "stripLeading spaceRunes s = TrimSpace s @ rev (concat ps)" by simp
  then show ?thesis by blast
qed

lemma TrimSpace_not_leading: "\<not> leadingSpace (TrimSpace s)"
proof
  assume "leadingSpace (TrimSpace s)"
  then obtain p where p: "p \<in> set spaceRunes" "take (length p) (TrimSpace s) = p"
    by (auto simp: leadingSpace_def)
  from TrimSpace_prefix obtain r where r: "stripLeading spaceRunes s = TrimSpace s @ r"
    by blast
  from p(2) have "length (take (length p) (TrimSpace s)) = length p" by simp
  then have "length p \<le> length (TrimSpace s)" by simp
  with p(2) r have "take (length p) (stripLeading spaceRunes s) = p" by simp
  with p(1) have "List.find (\<lambda>p. p \<noteq> [] \<and> take (length p) (stripLeading spaceRunes s) = p)
      spaceRunes \<noteq> None"
    by (auto simp: find_None_iff spaceRunes_nonempty)
  with stripLeading_fixed [of spaceRunes s] show False by simp
qed

lemma TrimSpace_decomp:
  "\<exists>ls rs. set ls \<subseteq> set spaceRunes \<and> set rs \<subseteq> set spaceRunes \<and>
     s = concat ls @ TrimSpace s @ concat rs"
proof -
  from stripLeading_decomp [of spaceRunes s]
  obtain ls where ls: "set ls \<subseteq> set spaceRunes" "s = concat ls @ stripLeading spaceRunes s"
    by blast
  from stripLeading_decomp [of "map rev spaceRunes" "rev (stripLeading spaceRunes s)"]
  obtain ps where ps: "set ps \<subseteq> set (map rev spaceRunes)"
    "rev (stripLeading spaceRunes s) = concat ps @ rev (TrimSpace s)"
    by (auto simp: TrimSpace_def)
  from ps(2) have "rev (rev (stripLeading spaceRunes s)) = rev (concat ps @ rev (TrimSpace s))"
    by simp
  then have t: "stripLeading spaceRunes s = TrimSpace s @ concat (map rev (rev ps))"
    by (simp add: rev_concat)
  from ps(1) have "set (map rev (rev ps)) \<subseteq> set spaceRunes" by auto
  with ls t show ?thesis by metis
qed

lemma candidates_trimmed:
  "c \<in> set (candidates str) \<Longrightarrow>
     c \<noteq> [] \<and> CHR '';'' \<notin> set c \<and> \<not> leadingSpace c \<and> \<not> trailingSpace c"
proof -
  assume "c \<in> set (candidates str)"
  then obtain piece where piece: "piece \<in> set (Split str (CHR '';''))" "c = TrimSpace piece"
    and ne: "c \<noteq> []"
    by (auto simp: candidates_def)
  from TrimSpace_decomp [of piece]
  obtain ls rs where d: "piece = concat ls @ TrimSpace piece @ concat rs" by blast
  have "set (TrimSpace piece) \<subseteq> set (concat ls @ TrimSpace piece @ concat rs)" by auto
  with d piece(2) have "set c \<subseteq> set piece" by metis
  with Split_no_sep [OF piece(1)] have "CHR '';'' \<notin> set c" by auto
  with ne piece(2) show ?thesis
    by (simp add: TrimSpace_not_leading TrimSpace_not_trailing)
qed

subsection \<open>The value extractor\<close>

text \<open>
  C7. \<^verbatim>\<open>parseValue\<close> returns \<open>None\<close> when its input literal is absent, and also
  when the kind tag of the literal is none of \<open>StrVal\<close>, \<open>IntVal\<close>, \<open>FloatVal\<close>,
  \<open>HexNum\<close>, \<open>HexVal\<close>, \<open>ValArg\<close>, \<open>BitVal\<close>; it has no error result.
\<close>

theorem parseValue_absent_or_unknown:
  "parseValue X None = None \<and>
   (SQLVal.Type v \<notin> {StrVal, IntVal, FloatVal, HexNum, HexVal, ValArg, BitVal} \<longrightarrow>
      parseValue X (Some v) = None)"
  by (simp add: parseValue_def)

theorem parseValue_absent_or_unknown_witness:
  "parseValue sampleExtern None = None \<and>
   parseValue sampleExtern (Some \<lparr>SQLVal.Type = 7, Val = ''abc''\<rparr>) = None \<and>
   parseValue sampleExtern (Some \<lparr>SQLVal.Type = - 1, Val = ''1''\<rparr>) = None"
  using parseValue_absent_or_unknown [of sampleExtern "\<lparr>SQLVal.Type = 7, Val = ''abc''\<rparr>"]
    parseValue_absent_or_unknown [of sampleExtern "\<lparr>SQLVal.Type = - 1, Val = ''1''\<rparr>"]
  by (simp add: StrVal_def IntVal_def FloatVal_def HexNum_def HexVal_def ValArg_def BitVal_def)

text \<open>
  C8. Every \<open>Value\<close> that \<^verbatim>\<open>parseValue\<close> produces holds the raw bytes of the
  literal it was made from, and for each of the seven known kinds a \<open>Value\<close> is
  produced.
\<close>

theorem parseValue_retains_raw:
  "(SQLVal.Type v \<in> {StrVal, IntVal, FloatVal, HexNum, HexVal, ValArg, BitVal} \<longrightarrow>
      (\<exists>r. parseValue X (Some v) = Some r \<and> raw r = Val v)) \<and>
   (parseValue X val = Some r \<longrightarrow> (\<exists>v. val = Some v \<and> raw r = Val v))"
proof (intro conjI impI)
  assume "SQLVal.Type v \<in> {StrVal, IntVal, FloatVal, HexNum, HexVal, ValArg, BitVal}"
  then show "\<exists>r. parseValue X (Some v) = Some r \<and> raw r = Val v"
    by (auto simp: parseValue_Str parseValue_Int parseValue_Float parseValue_HexNum
        parseValue_Hex parseValue_ValArg parseValue_Bit)
next
  assume a: "parseValue X val = Some r"
  then obtain v where v: "val = Some v"
    by (cases val) (simp_all add: parseValue_def)
  with a show "\<exists>v. val = Some v \<and> raw r = Val v"
    by (simp add: parseValue_Some_raw)
qed

theorem parseValue_retains_raw_witness:
  "(\<exists>r. parseValue sampleExtern (Some \<lparr>SQLVal.Type = HexNum, Val = ''0x1F''\<rparr>) = Some r \<and>
        raw r = ''0x1F'') \<and>
   (\<exists>r. parseValue sampleExtern (Some \<lparr>SQLVal.Type = IntVal, Val = ''007''\<rparr>) = Some r \<and>
        raw r = ''007'' \<and> intVal r = 7)"
proof -
  have "SQLVal.Type \<lparr>SQLVal.Type = HexNum, Val = ''0x1F''\<rparr>
          \<in> {StrVal, IntVal, FloatVal, HexNum, HexVal, ValArg, BitVal}"
    by simp
  with parseValue_retains_raw [of "\<lparr>SQLVal.Type = HexNum, Val = ''0x1F''\<rparr>" sampleExtern]
  have 1: "\<exists>r. parseValue sampleExtern (Some \<lparr>SQLVal.Type = HexNum, Val = ''0x1F''\<rparr>) = Some r
             \<and> raw r = ''0x1F''"
    by simp
  have 2: "parseValue sampleExtern (Some \<lparr>SQLVal.Type = IntVal, Val = ''007''\<rparr>) =
      Some \<lparr>valueType = ValueTypeInt, raw = ''007'', strVal = [], intVal = 7, floatVal = 0,
            bitVal = False\<rparr>"
    by (simp add: parseValue_Int Atoi_def ParseInt_def ParseUint_def maxUint64_def)
  from 1 2 show ?thesis by simp
qed

text \<open>
  C6. For a literal of kind \<open>BitVal\<close>, \<^verbatim>\<open>parseValue\<close> produces a \<open>Value\<close> of type
  \<open>ValueTypeBit\<close> whose \<open>bitVal\<close> is true when the raw bytes are the one character
  \<^verbatim>\<open>1\<close>, and false for every other raw text.
\<close>

theorem parseValue_bit_decode:
  "SQLVal.Type v = BitVal \<Longrightarrow>
     \<exists>r. parseValue X (Some v) = Some r \<and> valueType r = ValueTypeBit \<and>
         bitVal r = (Val v = ''1'')"
  by (simp add: parseValue_Bit)

theorem parseValue_bit_decode_witness:
  "(\<exists>r. parseValue sampleExtern (Some \<lparr>SQLVal.Type = BitVal, Val = ''1''\<rparr>) = Some r \<and>
        valueType r = ValueTypeBit \<and> bitVal r) \<and>
   (\<exists>r. parseValue sampleExtern (Some \<lparr>SQLVal.Type = BitVal, Val = ''0''\<rparr>) = Some r \<and>
        valueType r = ValueTypeBit \<and> \<not> bitVal r) \<and>
   (\<exists>r. parseValue sampleExtern (Some \<lparr>SQLVal.Type = BitVal, Val = ''x''\<rparr>) = Some r \<and>
        valueType r = ValueTypeBit \<and> \<not> bitVal r) \<and>
   (\<exists>r. parseValue sampleExtern (Some \<lparr>SQLVal.Type = BitVal, Val = ''''\<rparr>) = Some r \<and>
        valueType r = ValueTypeBit \<and> \<not> bitVal r) \<and>
   (\<exists>r. parseValue sampleExtern (Some \<lparr>SQLVal.Type = BitVal, Val = ''11''\<rparr>) = Some r \<and>
        valueType r = ValueTypeBit \<and> \<not> bitVal r)"
  using parseValue_bit_decode [of "\<lparr>SQLVal.Type = BitVal, Val = ''1''\<rparr>" sampleExtern]
    parseValue_bit_decode [of "\<lparr>SQLVal.Type = BitVal, Val = ''0''\<rparr>" sampleExtern]
    parseValue_bit_decode [of "\<lparr>SQLVal.Type = BitVal, Val = ''x''\<rparr>" sampleExtern]
    parseValue_bit_decode [of "\<lparr>SQLVal.Type = BitVal, Val = ''''\<rparr>" sampleExtern]
    parseValue_bit_decode [of "\<lparr>SQLVal.Type = BitVal, Val = ''11''\<rparr>" sampleExtern]
  by simp

text \<open>
  C5, as amended. For a literal of kind \<open>IntVal\<close>, \<^verbatim>\<open>parseValue\<close> produces a
  \<open>Value\<close> whose \<open>intVal\<close> is the number \<^verbatim>\<open>strconv.Atoi\<close> returns, with the error
  of \<^verbatim>\<open>Atoi\<close> dropped: the decimal value for a non-empty string of digits, with or
  without a minus sign, in the range of a 64-bit signed integer; zero when \<^verbatim>\<open>Atoi\<close>
  reports a syntax error; the bound \<open>2 ^ 63 - 1\<close> or \<open>- (2 ^ 63)\<close> when it reports
  a range error. For a literal of kind \<open>FloatVal\<close>, \<open>floatVal\<close> is the number
  \<^verbatim>\<open>strconv.ParseFloat\<close> returns, with its error dropped. In both cases a \<open>Value\<close>
  is produced and no error.
\<close>

theorem parseValue_numeric_decode:
  "(SQLVal.Type v = IntVal \<longrightarrow>
      (\<exists>r. parseValue X (Some v) = Some r \<and> valueType r = ValueTypeInt \<and>
           intVal r = fst (Atoi (Val v)) \<and>
           - (2 ^ 63) \<le> intVal r \<and> intVal r \<le> 2 ^ 63 - 1 \<and>
           (Val v \<noteq> [] \<and> digits (Val v) \<and> decimal (Val v) < 2 ^ 63 \<longrightarrow>
              intVal r = decimal (Val v)) \<and>
           (\<forall>ds. Val v = CHR ''-'' # ds \<and> ds \<noteq> [] \<and> digits ds \<and> decimal ds \<le> 2 ^ 63 \<longrightarrow>
              intVal r = - decimal ds) \<and>
           (snd (Atoi (Val v)) = Some ErrSyntax \<longrightarrow> intVal r = 0) \<and>
           (snd (Atoi (Val v)) = Some ErrRange \<longrightarrow>
              intVal r = 2 ^ 63 - 1 \<or> intVal r = - (2 ^ 63)))) \<and>
   (SQLVal.Type v = FloatVal \<longrightarrow>
      (\<exists>r. parseValue X (Some v) = Some r \<and> valueType r = ValueTypeFloat \<and>
           floatVal r = fst (ParseFloat X (Val v))))"
proof (intro conjI impI)
  assume t: "SQLVal.Type v = IntVal"
  let ?r = "\<lparr>valueType = ValueTypeInt, raw = Val v, strVal = [], intVal = fst (Atoi (Val v)),
             floatVal = 0, bitVal = False\<rparr>"
  show "\<exists>r. parseValue X (Some v) = Some r \<and> valueType r = ValueTypeInt \<and>
           intVal r = fst (Atoi (Val v)) \<and>
           - (2 ^ 63) \<le> intVal r \<and> intVal r \<le> 2 ^ 63 - 1 \<and>
           (Val v \<noteq> [] \<and> digits (Val v) \<and> decimal (Val v) < 2 ^ 63 \<longrightarrow>
              intVal r = decimal (Val v)) \<and>
           (\<forall>ds. Val v = CHR ''-'' # ds \<and> ds \<noteq> [] \<and> digits ds \<and> decimal ds \<le> 2 ^ 63 \<longrightarrow>
              intVal r = - decimal ds) \<and>
           (snd (Atoi (Val v)) = Some ErrSyntax \<longrightarrow> intVal r = 0) \<and>
           (snd (Atoi (Val v)) = Some ErrRange \<longrightarrow>
              intVal r = 2 ^ 63 - 1 \<or> intVal r = - (2 ^ 63))"
  proof (rule exI [of _ ?r], intro conjI impI allI)
    show "parseValue X (Some v) = Some ?r"
      using t by (rule parseValue_Int)
    show "valueType ?r = ValueTypeInt" by simp
    show "intVal ?r = fst (Atoi (Val v))" by simp
    show "- (2 ^ 63) \<le> intVal ?r" using Atoi_bounds [of "Val v"] by simp
    show "intVal ?r \<le> 2 ^ 63 - 1" using Atoi_bounds [of "Val v"] by simp
    show "intVal ?r = decimal (Val v)"
      if "Val v \<noteq> [] \<and> digits (Val v) \<and> decimal (Val v) < 2 ^ 63"
      using that by (simp add: Atoi_decimal)
    show "intVal ?r = - decimal ds"
      if "Val v = CHR ''-'' # ds \<and> ds \<noteq> [] \<and> digits ds \<and> decimal ds \<le> 2 ^ 63" for ds
      using that by (simp add: Atoi_decimal_neg)
    show "intVal ?r = 0" if "snd (Atoi (Val v)) = Some ErrSyntax"
      using that by (simp add: Atoi_syntax)
    show "intVal ?r = 2 ^ 63 - 1 \<or> intVal ?r = - (2 ^ 63)"
      if "snd (Atoi (Val v)) = Some ErrRange"
      using Atoi_range [OF that] by simp
  qed
next
  assume "SQLVal.Type v = FloatVal"
  then show "\<exists>r. parseValue X (Some v) = Some r \<and> valueType r = ValueTypeFloat \<and>
           floatVal r = fst (ParseFloat X (Val v))"
    by (simp add: parseValue_Float)
qed

theorem parseValue_numeric_decode_witness:
  "map_option intVal (parseValue sampleExtern (Some \<lparr>SQLVal.Type = IntVal, Val = ''10''\<rparr>))
     = Some 10 \<and>
   map_option intVal (parseValue sampleExtern (Some \<lparr>SQLVal.Type = IntVal, Val = ''-17''\<rparr>))
     = Some (- 17) \<and>
   map_option intVal (parseValue sampleExtern (Some \<lparr>SQLVal.Type = IntVal, Val = ''12a''\<rparr>))
     = Some 0 \<and>
   map_option intVal (parseValue sampleExtern (Some \<lparr>SQLVal.Type = IntVal, Val = ''''\<rparr>))
     = Some 0 \<and>
   map_option intVal (parseValue sampleExtern
      (Some \<lparr>SQLVal.Type = IntVal, Val = ''-9223372036854775809''\<rparr>))
     = Some (- 9223372036854775808) \<and>
   map_option floatVal (parseValue sampleExtern (Some \<lparr>SQLVal.Type = FloatVal, Val = ''1.5''\<rparr>))
     = Some 0x3FF8000000000000 \<and>
   map_option floatVal (parseValue sampleExtern (Some \<lparr>SQLVal.Type = FloatVal, Val = ''1.5.''\<rparr>))
     = Some 0"
proof -
  have int_case: "map_option intVal
      (parseValue sampleExtern (Some \<lparr>SQLVal.Type = IntVal, Val = s\<rparr>)) = Some (fst (Atoi s))"
    for s
  proof -
    have "SQLVal.Type \<lparr>SQLVal.Type = IntVal, Val = s\<rparr> = IntVal" by simp
    from parseValue_numeric_decode [THEN conjunct1, THEN mp, OF this]
    obtain r where "parseValue sampleExtern (Some \<lparr>SQLVal.Type = IntVal, Val = s\<rparr>) = Some r"
      and "intVal r = fst (Atoi (Val \<lparr>SQLVal.Type = IntVal, Val = s\<rparr>))"
      by blast
    then show ?thesis by simp
  qed
  have float_case: "map_option floatVal
      (parseValue sampleExtern (Some \<lparr>SQLVal.Type = FloatVal, Val = s\<rparr>))
        = Some (fst (sampleParseFloat s))"
    for s
  proof -
    have "SQLVal.Type \<lparr>SQLVal.Type = FloatVal, Val = s\<rparr> = FloatVal" by simp
    from parseValue_numeric_decode [THEN conjunct2, THEN mp, OF this]
    obtain r where "parseValue sampleExtern (Some \<lparr>SQLVal.Type = FloatVal, Val = s\<rparr>) = Some r"
      and "floatVal r = fst (ParseFloat sampleExtern (Val \<lparr>SQLVal.Type = FloatVal, Val = s\<rparr>))"
      by blast
    then show ?thesis by (simp add: sampleExtern_def)
  qed
  have a: "Atoi ''10'' = (10, None)" "Atoi ''-17'' = (- 17, None)"
    "Atoi ''12a'' = (0, Some ErrSyntax)" "Atoi '''' = (0, Some ErrSyntax)"
    "Atoi ''-9223372036854775809'' = (- 9223372036854775808, Some ErrRange)"
    by (simp_all add: Atoi_def ParseInt_def ParseUint_def maxUint64_def)
  have f: "sampleParseFloat ''1.5'' = (0x3FF8000000000000, None)"
    "sampleParseFloat ''1.5.'' = (0, Some ErrSyntax)"
    by (simp_all add: sampleParseFloat_def)
  show ?thesis
    by (simp only: int_case float_case a f fst_conv simp_thms)
qed

text \<open>
  The claim C5 as it is stated fails on a literal that is out of range: \<^verbatim>\<open>Atoi\<close>
  reports an error for \<^verbatim>\<open>9223372036854775808\<close>, and the \<open>Value\<close> holds
  \<open>2 ^ 63 - 1\<close>, not zero.
\<close>

theorem parseValue_out_of_range_not_zero:
  "snd (Atoi ''9223372036854775808'') = Some ErrRange \<and>
   map_option intVal
     (parseValue sampleExtern (Some \<lparr>SQLVal.Type = IntVal, Val = ''9223372036854775808''\<rparr>))
     = Some 9223372036854775807"
proof -
  have "Atoi ''9223372036854775808'' = (9223372036854775807, Some ErrRange)"
    by (simp add: Atoi_def ParseInt_def ParseUint_def maxUint64_def)
  then show ?thesis
    by (simp add: parseValue_Int)
qed

subsection \<open>The index extractor\<close>

text \<open>
  C4. \<^verbatim>\<open>parseIndex\<close> fails with the error \<open>MissingIndexSpec\<close> when the node has
  no index specification. Otherwise it returns an \<open>Index\<close> whose columns are the
  column identifiers of the node, in their order, each with no prefix length, whose
  \<open>indexType\<close> is the empty string, whose \<open>primary\<close> flag is false, and whose name
  and \<open>unique\<close> flag are those of the index specification of the node.
\<close>

theorem parseIndex_result:
  "(IndexSpec stmt = None \<longrightarrow> parseIndex stmt = Inl (MissingIndexSpec stmt)) \<and>
   (\<forall>spec. IndexSpec stmt = Some spec \<longrightarrow>
      parseIndex stmt =
        Inr \<lparr>Index.name = IndexSpec.Name spec, indexType = [],
             columns = map (\<lambda>colIdent. \<lparr>IndexColumn.column = colIdent, length' = None\<rparr>)
                         (IndexCols stmt),
             primary = False, unique = IndexSpec.Unique spec\<rparr>)"
  by (simp add: parseIndex_def foldl_append_map ColIdent_String_def)

theorem parseIndex_result_witness:
  "parseIndex sampleIndexNode =
     Inr \<lparr>Index.name = ''idx'', indexType = [],
          columns = [\<lparr>IndexColumn.column = ''col'', length' = None\<rparr>,
                     \<lparr>IndexColumn.column = ''b'', length' = None\<rparr>],
          primary = False, unique = True\<rparr> \<and>
   parseIndex sampleNoSpecNode = Inl (MissingIndexSpec sampleNoSpecNode)"
proof -
  have "IndexSpec sampleIndexNode = Some \<lparr>IndexSpec.Name = ''idx'', Unique = True\<rparr>"
    by (simp add: sampleIndexNode_def)
  with parseIndex_result [of sampleIndexNode]
  have "parseIndex sampleIndexNode =
     Inr \<lparr>Index.name = IndexSpec.Name \<lparr>IndexSpec.Name = ''idx'', Unique = True\<rparr>,
          indexType = [],
          columns = map (\<lambda>colIdent. \<lparr>IndexColumn.column = colIdent, length' = None\<rparr>)
                      (IndexCols sampleIndexNode),
          primary = False, unique = IndexSpec.Unique \<lparr>IndexSpec.Name = ''idx'', Unique = True\<rparr>\<rparr>"
    by blast
  moreover have "IndexCols sampleIndexNode = [''col'', ''b'']"
    by (simp add: sampleIndexNode_def)
  moreover have "IndexSpec sampleNoSpecNode = None"
    by (simp add: sampleNoSpecNode_def)
  with parseIndex_result [of sampleNoSpecNode]
  have "parseIndex sampleNoSpecNode = Inl (MissingIndexSpec sampleNoSpecNode)"
    by blast
  ultimately show ?thesis by simp
qed

subsection \<open>The table builder\<close>

text \<open>
  C3. On a \<^verbatim>\<open>CREATE TABLE\<close> node, one that carries a table specification,
  \<^verbatim>\<open>parseTable\<close> returns a \<open>Table\<close> with as many columns as the node has column
  definitions, the column at each position built from the definition at that
  position (its \<open>defaultVal\<close>, \<open>length'\<close> and \<open>scale\<close> each by one call of
  \<^verbatim>\<open>parseValue\<close>), and with as many indexes as the node has inline index
  definitions, the index at each position built from the definition at that position,
  its columns being the pairs of column name and \<^verbatim>\<open>parseValue\<close> of the prefix
  length, in their order. Nothing is reordered, merged, dropped or rejected.
\<close>

theorem parseTable_one_per_definition:
  assumes "TableSpec stmt = Some spec"
  shows "\<exists>table. parseTable X stmt = Return table \<and>
     Table.name table = TableName.Name (NewName stmt) \<and>
     length (Table.columns table) = length (TableSpec.Columns spec) \<and>
     (\<forall>i < length (TableSpec.Columns spec).
        Table.columns table ! i =
          \<lparr>Column.name = ColumnDefinition.Name (TableSpec.Columns spec ! i),
            typeName = ColumnType.Type (ColumnDefinition.Type (TableSpec.Columns spec ! i)),
            unsigned = Unsigned (ColumnDefinition.Type (TableSpec.Columns spec ! i)),
            notNull = NotNull (ColumnDefinition.Type (TableSpec.Columns spec ! i)),
            autoIncrement = Autoincrement (ColumnDefinition.Type (TableSpec.Columns spec ! i)),
            defaultVal =
              parseValue X (Default (ColumnDefinition.Type (TableSpec.Columns spec ! i))),
            length' =
              parseValue X (ColumnType.Length (ColumnDefinition.Type (TableSpec.Columns spec ! i))),
            scale = parseValue X (Scale (ColumnDefinition.Type (TableSpec.Columns spec ! i))),
            keyOption = KeyOpt (ColumnDefinition.Type (TableSpec.Columns spec ! i))\<rparr>) \<and>
     length (indexes table) = length (Indexes spec) \<and>
     (\<forall>j < length (Indexes spec).
        indexes table ! j =
          \<lparr>Index.name = IndexInfo.Name (Info (Indexes spec ! j)),
            indexType = IndexInfo.Type (Info (Indexes spec ! j)),
            columns = map (\<lambda>column.
                \<lparr>IndexColumn.column = Column column,
                  length' = parseValue X (sqlparser_IndexColumn.Length column)\<rparr>)
              (IndexDefinition.Columns (Indexes spec ! j)),
            primary = Primary (Info (Indexes spec ! j)),
            unique = IndexInfo.Unique (Info (Indexes spec ! j))\<rparr>)"
  by (simp add: parseTable_spec [OF assms])

theorem parseTable_one_per_definition_witness:
  "\<exists>table. parseTable sampleExtern sampleTableNode = Return table \<and>
     Table.name table = ''t'' \<and>
     length (Table.columns table) = 3 \<and>
     Column.name (Table.columns table ! 0) = ''a'' \<and>
     Column.name (Table.columns table ! 1) = ''b'' \<and>
     Column.name (Table.columns table ! 2) = ''a'' \<and>
     defaultVal (Table.columns table ! 0) =
       Some \<lparr>valueType = ValueTypeInt, raw = ''7'', strVal = [], intVal = 7, floatVal = 0,
             bitVal = False\<rparr> \<and>
     Column.length' (Table.columns table ! 1) =
       Some \<lparr>valueType = ValueTypeInt, raw = ''10'', strVal = [], intVal = 10, floatVal = 0,
             bitVal = False\<rparr> \<and>
     notNull (Table.columns table ! 1) \<and>
     scale (Table.columns table ! 2) = None \<and>
     indexes table =
       [\<lparr>Index.name = ''b_idx'', indexType = ''key'',
         columns =
           [\<lparr>IndexColumn.column = ''b'',
             length' = Some \<lparr>valueType = ValueTypeInt, raw = ''5'', strVal = [], intVal = 5,
                               floatVal = 0, bitVal = False\<rparr>\<rparr>,
            \<lparr>IndexColumn.column = ''a'', length' = None\<rparr>],
         primary = False, unique = False\<rparr>]"
proof -
  have ts: "TableSpec sampleTableNode = Some sampleTableSpec"
    by (simp add: sampleTableNode_def)
  have nn: "TableName.Name (NewName sampleTableNode) = ''t''"
    by (simp add: sampleTableNode_def)
  have lc: "length (TableSpec.Columns sampleTableSpec) = 3"
    and li: "length (Indexes sampleTableSpec) = 1"
    by (simp_all add: sampleTableSpec_def)
  have pv: "parseValue sampleExtern (Some \<lparr>SQLVal.Type = IntVal, Val = ''7''\<rparr>) =
      Some \<lparr>valueType = ValueTypeInt, raw = ''7'', strVal = [], intVal = 7, floatVal = 0,
            bitVal = False\<rparr>"
    "parseValue sampleExtern (Some \<lparr>SQLVal.Type = IntVal, Val = ''10''\<rparr>) =
      Some \<lparr>valueType = ValueTypeInt, raw = ''10'', strVal = [], intVal = 10, floatVal = 0,
            bitVal = False\<rparr>"
    "parseValue sampleExtern (Some \<lparr>SQLVal.Type = IntVal, Val = ''5''\<rparr>) =
      Some \<lparr>valueType = ValueTypeInt, raw = ''5'', strVal = [], intVal = 5, floatVal = 0,
            bitVal = False\<rparr>"
    "parseValue sampleExtern None = None"
    by (simp_all add: parseValue_Int Atoi_def ParseInt_def ParseUint_def maxUint64_def
        parseValue_def [of _ None])
  from parseTable_one_per_definition [OF ts, of sampleExtern]
  obtain table where t: "parseTable sampleExtern sampleTableNode = Return table"
    and n: "Table.name table = TableName.Name (NewName sampleTableNode)"
    and l: "length (Table.columns table) = length (TableSpec.Columns sampleTableSpec)"
    and c: "\<forall>i < length (TableSpec.Columns sampleTableSpec).
        Table.columns table ! i =
          \<lparr>Column.name = ColumnDefinition.Name (TableSpec.Columns sampleTableSpec ! i),
            typeName = ColumnType.Type (ColumnDefinition.Type (TableSpec.Columns sampleTableSpec ! i)),
            unsigned = Unsigned (ColumnDefinition.Type (TableSpec.Columns sampleTableSpec ! i)),
            notNull = NotNull (ColumnDefinition.Type (TableSpec.Columns sampleTableSpec ! i)),
            autoIncrement =
              Autoincrement (ColumnDefinition.Type (TableSpec.Columns sampleTableSpec ! i)),
            defaultVal = parseValue sampleExtern
              (Default (ColumnDefinition.Type (TableSpec.Columns sampleTableSpec ! i))),
            length' = parseValue sampleExtern
              (ColumnType.Length (ColumnDefinition.Type (TableSpec.Columns sampleTableSpec ! i))),
            scale = parseValue sampleExtern
              (Scale (ColumnDefinition.Type (TableSpec.Columns sampleTableSpec ! i))),
            keyOption = KeyOpt (ColumnDefinition.Type (TableSpec.Columns sampleTableSpec ! i))\<rparr>"
    and m: "length (indexes table) = length (Indexes sampleTableSpec)"
    and x: "\<forall>j < length (Indexes sampleTableSpec).
        indexes table ! j =
          \<lparr>Index.name = IndexInfo.Name (Info (Indexes sampleTableSpec ! j)),
            indexType = IndexInfo.Type (Info (Indexes sampleTableSpec ! j)),
            columns = map (\<lambda>column.
                \<lparr>IndexColumn.column = Column column,
                  length' = parseValue sampleExtern (sqlparser_IndexColumn.Length column)\<rparr>)
              (IndexDefinition.Columns (Indexes sampleTableSpec ! j)),
            primary = Primary (Info (Indexes sampleTableSpec ! j)),
            unique = IndexInfo.Unique (Info (Indexes sampleTableSpec ! j))\<rparr>"
    by blast
  from c lc have c0: "Table.columns table ! 0 =
      \<lparr>Column.name = ''a'', typeName = ''int'', unsigned = False, notNull = False,
        autoIncrement = False,
        defaultVal = Some \<lparr>valueType = ValueTypeInt, raw = ''7'', strVal = [], intVal = 7,
                             floatVal = 0, bitVal = False\<rparr>,
        length' = None, scale = None, keyOption = 0\<rparr>"
    by (simp add: sampleTableSpec_def pv)
  from c lc have c1: "Table.columns table ! 1 =
      \<lparr>Column.name = ''b'', typeName = ''varchar'', unsigned = False, notNull = True,
        autoIncrement = False, defaultVal = None,
        length' = Some \<lparr>valueType = ValueTypeInt, raw = ''10'', strVal = [], intVal = 10,
                          floatVal = 0, bitVal = False\<rparr>,
        scale = None, keyOption = 0\<rparr>"
    by (simp add: sampleTableSpec_def pv)
  from c lc have c2: "Table.columns table ! 2 =
      \<lparr>Column.name = ''a'', typeName = ''int'', unsigned = False, notNull = False,
        autoIncrement = False, defaultVal = None, length' = None, scale = None,
        keyOption = 0\<rparr>"
    by (simp add: sampleTableSpec_def pv)
  from x li have x0: "indexes table ! 0 =
      \<lparr>Index.name = ''b_idx'', indexType = ''key'',
        columns =
          [\<lparr>IndexColumn.column = ''b'',
            length' = Some \<lparr>valueType = ValueTypeInt, raw = ''5'', strVal = [], intVal = 5,
                              floatVal = 0, bitVal = False\<rparr>\<rparr>,
           \<lparr>IndexColumn.column = ''a'', length' = None\<rparr>],
        primary = False, unique = False\<rparr>"
    by (simp add: sampleTableSpec_def pv)
  from m li have idx: "indexes table = [indexes table ! 0]"
    by (auto simp: list_eq_iff_nth_eq)
  from t n nn l lc c0 c1 c2 x0 idx show ?thesis
    by (intro exI [of _ table]) simp
qed

subsection \<open>The dispatcher\<close>




text \<open>
  C10. For every dialect mode other than \<open>GeneratorModePostgres\<close>, whether it is
  \<open>GeneratorModeMysql\<close> or any other integer, \<^verbatim>\<open>parseDDL\<close> returns what it returns
  for \<open>GeneratorModeMysql\<close>, and it asks the grammar in MySQL mode only: the result
  is the same with a grammar that answers every call as it answers in MySQL mode. No
  mode is rejected.
\<close>

theorem parseDDL_mode_default:
  assumes "mode \<noteq> GeneratorModePostgres"
  shows "parseDDL X mode ddl = parseDDL X GeneratorModeMysql ddl \<and>
         parseDDL X mode ddl =
           parseDDL (X\<lparr>ParseWithMode := \<lambda>text pm. ParseWithMode X text ParserModeMysql\<rparr>)
             mode ddl"
proof
  from assms show "parseDDL X mode ddl = parseDDL X GeneratorModeMysql ddl"
    by (simp add: parseDDL_def GeneratorModeMysql_def GeneratorModePostgres_def)
next
  let ?X' = "X\<lparr>ParseWithMode := \<lambda>text pm. ParseWithMode X text ParserModeMysql\<rparr>"
  from assms
  have "ParseWithMode X ddl
          (if mode = GeneratorModePostgres then ParserModePostgres else ParserModeMysql)
      = ParseWithMode ?X' ddl
          (if mode = GeneratorModePostgres then ParserModePostgres else ParserModeMysql)"
    by simp
  moreover have "ParseFloat X = ParseFloat ?X'" by simp
  ultimately show "parseDDL X mode ddl = parseDDL ?X' mode ddl"
    by (rule parseDDL_congruence)
qed

theorem parseDDL_mode_default_witness:
  "(7 :: GeneratorMode) \<noteq> GeneratorModePostgres \<and>
   parseDDL sampleExtern 7 ''CREATE TABLE u (id INT UNSIGNED)'' =
     parseDDL sampleExtern GeneratorModeMysql ''CREATE TABLE u (id INT UNSIGNED)'' \<and>
   parseDDL sampleExtern GeneratorModeMysql ''CREATE TABLE u (id INT UNSIGNED)'' =
     Return (Inr (CreateTable ''CREATE TABLE u (id INT UNSIGNED)''
       \<lparr>Table.name = ''u'',
         columns = [\<lparr>Column.name = ''id'', typeName = ''int'', unsigned = True,
                      notNull = False, autoIncrement = False, defaultVal = None,
                      length' = None, scale = None, keyOption = 0\<rparr>],
         indexes = []\<rparr>)) \<and>
   parseDDL sampleExtern GeneratorModePostgres ''CREATE TABLE u (id INT UNSIGNED)'' =
     Return (Inl (SyntaxError ''syntax error near UNSIGNED''))"
proof -
  have n: "(7 :: GeneratorMode) \<noteq> GeneratorModePostgres"
    by (simp add: GeneratorModePostgres_def)
  from parseDDL_mode_default [OF n, of sampleExtern "''CREATE TABLE u (id INT UNSIGNED)''"]
  have e: "parseDDL sampleExtern 7 ''CREATE TABLE u (id INT UNSIGNED)'' =
     parseDDL sampleExtern GeneratorModeMysql ''CREATE TABLE u (id INT UNSIGNED)''"
    by (rule conjunct1)
  have my: "parseDDL sampleExtern GeneratorModeMysql ''CREATE TABLE u (id INT UNSIGNED)'' =
     Return (Inr (CreateTable ''CREATE TABLE u (id INT UNSIGNED)''
       \<lparr>Table.name = ''u'',
         columns = [\<lparr>Column.name = ''id'', typeName = ''int'', unsigned = True,
                      notNull = False, autoIncrement = False, defaultVal = None,
                      length' = None, scale = None, keyOption = 0\<rparr>],
         indexes = []\<rparr>))"
    by (simp add: parseDDL_def parseTable_def sampleExtern_def sampleGrammar_def
        sampleUnsignedNode_def castBool_id parseValue_def ColIdent_String_def
        TableIdent_String_def GeneratorModeMysql_def GeneratorModePostgres_def)
  have pg: "parseDDL sampleExtern GeneratorModePostgres ''CREATE TABLE u (id INT UNSIGNED)'' =
     Return (Inl (SyntaxError ''syntax error near UNSIGNED''))"
    by (simp add: parseDDL_def sampleExtern_def sampleGrammar_def)
  from n e my pg show ?thesis by (intro conjI)
qed

subsection \<open>The splitter\<close>

text \<open>
  C2. \<^verbatim>\<open>parseDDLs\<close> splits its input at the semicolons (the pieces, each behind a
  semicolon, make up the input behind a semicolon), trims each piece, leaves out the
  pieces that are empty once trimmed (a candidate is not empty, holds no semicolon and
  neither starts nor ends with a space), and dispatches the candidates in their order.
  When every candidate is dispatched to a DDL value, it returns these values in order
  and no error. When a candidate fails and all candidates before it were dispatched to
  DDL values, it returns the values of the candidates before it together with that
  error, whatever stands behind the failing candidate.
\<close>

theorem parseDDLs_partial_progress:
  "concat (map (\<lambda>p. CHR '';'' # p) (Split str (CHR '';''))) = CHR '';'' # str \<and>
   (\<forall>c \<in> set (candidates str).
      c \<noteq> [] \<and> CHR '';'' \<notin> set c \<and> \<not> leadingSpace c \<and> \<not> trailingSpace c) \<and>
   parseDDLs X mode str = dispatchInOrder (parseDDL X mode) (candidates str) \<and>
   (map (parseDDL X mode) (candidates str) = map (\<lambda>d. Return (Inr d)) ds \<longrightarrow>
      parseDDLs X mode str = Return (ds, None)) \<and>
   (candidates str = before @ failing # behind \<and>
    map (parseDDL X mode) before = map (\<lambda>d. Return (Inr d)) ds' \<and>
    parseDDL X mode failing = Return (Inl err) \<longrightarrow>
      parseDDLs X mode str = Return (ds', Some err))"
proof (intro conjI ballI impI)
  show "concat (map (\<lambda>p. CHR '';'' # p) (Split str (CHR '';''))) = CHR '';'' # str"
    by (rule Split_join)
next
  fix c assume c: "c \<in> set (candidates str)"
  from candidates_trimmed [OF c]
  show "c \<noteq> []" "CHR '';'' \<notin> set c" "\<not> leadingSpace c" "\<not> trailingSpace c"
    by simp_all
next
  show "parseDDLs X mode str = dispatchInOrder (parseDDL X mode) (candidates str)"
    by (rule parseDDLs_dispatchInOrder)
next
  assume "map (parseDDL X mode) (candidates str) = map (\<lambda>d. Return (Inr d)) ds"
  then show "parseDDLs X mode str = Return (ds, None)"
    by (simp add: parseDDLs_dispatchInOrder dispatchInOrder_all_ok)
next
  assume "candidates str = before @ failing # behind \<and>
    map (parseDDL X mode) before = map (\<lambda>d. Return (Inr d)) ds' \<and>
    parseDDL X mode failing = Return (Inl err)"
  then show "parseDDLs X mode str = Return (ds', Some err)"
    by (simp add: parseDDLs_dispatchInOrder dispatchInOrder_first_failure)
qed

theorem parseDDLs_partial_progress_witness:
  "parseDDLs sampleExtern GeneratorModeMysql
     (''CREATE TABLE u (id INT UNSIGNED);'' @ [CHR 0x0A] @ ''  ; DROP TABLE t ; SELECT 1'') =
     Return ([CreateTable ''CREATE TABLE u (id INT UNSIGNED)''
                \<lparr>Table.name = ''u'',
                  columns = [\<lparr>Column.name = ''id'', typeName = ''int'', unsigned = True,
                               notNull = False, autoIncrement = False, defaultVal = None,
                               length' = None, scale = None, keyOption = 0\<rparr>],
                  indexes = []\<rparr>],
             Some (UnsupportedAction ''drop'' ''DROP TABLE t'')) \<and>
   parseDDLs sampleExtern GeneratorModeMysql
     ''CREATE UNIQUE INDEX idx ON t (col, b); ; CREATE TABLE u (id INT UNSIGNED);'' =
     Return ([CreateIndex ''CREATE UNIQUE INDEX idx ON t (col, b)'' ''t''
                \<lparr>Index.name = ''idx'', indexType = [],
                  columns = [\<lparr>IndexColumn.column = ''col'', length' = None\<rparr>,
                             \<lparr>IndexColumn.column = ''b'', length' = None\<rparr>],
                  primary = False, unique = True\<rparr>,
              CreateTable ''CREATE TABLE u (id INT UNSIGNED)''
                \<lparr>Table.name = ''u'',
                  columns = [\<lparr>Column.name = ''id'', typeName = ''int'', unsigned = True,
                               notNull = False, autoIncrement = False, defaultVal = None,
                               length' = None, scale = None, keyOption = 0\<rparr>],
                  indexes = []\<rparr>],
             None)"
proof -
  let ?u = "CreateTable ''CREATE TABLE u (id INT UNSIGNED)''
                \<lparr>Table.name = ''u'',
                  columns = [\<lparr>Column.name = ''id'', typeName = ''int'', unsigned = True,
                               notNull = False, autoIncrement = False, defaultVal = None,
                               length' = None, scale = None, keyOption = 0\<rparr>],
                  indexes = []\<rparr>"
  let ?i = "CreateIndex ''CREATE UNIQUE INDEX idx ON t (col, b)'' ''t''
                \<lparr>Index.name = ''idx'', indexType = [],
                  columns = [\<lparr>IndexColumn.column = ''col'', length' = None\<rparr>,
                             \<lparr>IndexColumn.column = ''b'', length' = None\<rparr>],
                  primary = False, unique = True\<rparr>"
  have ca: "candidates
      (''CREATE TABLE u (id INT UNSIGNED);'' @ [CHR 0x0A] @ ''  ; DROP TABLE t ; SELECT 1'') =
      [''CREATE TABLE u (id INT UNSIGNED)''] @ ''DROP TABLE t'' # [''SELECT 1'']"
    by (simp add: candidates_def Split_def TrimSpace_def spaceRunes_def stripLeading.simps)
  have cb: "candidates
      ''CREATE UNIQUE INDEX idx ON t (col, b); ; CREATE TABLE u (id INT UNSIGNED);'' =
      [''CREATE UNIQUE INDEX idx ON t (col, b)'', ''CREATE TABLE u (id INT UNSIGNED)'']"
    by (simp add: candidates_def Split_def TrimSpace_def spaceRunes_def stripLeading.simps)
  have u: "parseDDL sampleExtern GeneratorModeMysql ''CREATE TABLE u (id INT UNSIGNED)'' =
      Return (Inr ?u)"
    by (simp add: parseDDL_def parseTable_def sampleExtern_def sampleGrammar_def
        sampleUnsignedNode_def castBool_id parseValue_def ColIdent_String_def
        TableIdent_String_def GeneratorModeMysql_def GeneratorModePostgres_def)
  have i: "parseDDL sampleExtern GeneratorModeMysql ''CREATE UNIQUE INDEX idx ON t (col, b)'' =
      Return (Inr ?i)"
    by (simp add: parseDDL_def parseIndex_def sampleExtern_def sampleGrammar_def
        sampleIndexNode_def ColIdent_String_def TableIdent_String_def
        GeneratorModeMysql_def GeneratorModePostgres_def)
  have d: "parseDDL sampleExtern GeneratorModeMysql ''DROP TABLE t'' =
      Return (Inl (UnsupportedAction ''drop'' ''DROP TABLE t''))"
    by (simp add: parseDDL_def sampleExtern_def sampleGrammar_def sampleDropNode_def
        GeneratorModeMysql_def GeneratorModePostgres_def)
  note all_ok = parseDDLs_partial_progress
    [THEN conjunct2, THEN conjunct2, THEN conjunct2, THEN conjunct1, THEN mp]
  note first_failure = parseDDLs_partial_progress
    [THEN conjunct2, THEN conjunct2, THEN conjunct2, THEN conjunct2, THEN mp]
  have first: "parseDDLs sampleExtern GeneratorModeMysql
      (''CREATE TABLE u (id INT UNSIGNED);'' @ [CHR 0x0A] @ ''  ; DROP TABLE t ; SELECT 1'') =
      Return ([?u], Some (UnsupportedAction ''drop'' ''DROP TABLE t''))"
  proof (rule first_failure, intro conjI)
    show "candidates
        (''CREATE TABLE u (id INT UNSIGNED);'' @ [CHR 0x0A] @ ''  ; DROP TABLE t ; SELECT 1'') =
        [''CREATE TABLE u (id INT UNSIGNED)''] @ ''DROP TABLE t'' # [''SELECT 1'']"
      by (rule ca)
    show "map (parseDDL sampleExtern GeneratorModeMysql) [''CREATE TABLE u (id INT UNSIGNED)''] =
        map (\<lambda>d. Return (Inr d)) [?u]"
      by (simp add: u)
    show "parseDDL sampleExtern GeneratorModeMysql ''DROP TABLE t'' =
        Return (Inl (UnsupportedAction ''drop'' ''DROP TABLE t''))"
      by (rule d)
  qed
  have second: "parseDDLs sampleExtern GeneratorModeMysql
      ''CREATE UNIQUE INDEX idx ON t (col, b); ; CREATE TABLE u (id INT UNSIGNED);'' =
      Return ([?i, ?u], None)"
  proof (rule all_ok)
    show "map (parseDDL sampleExtern GeneratorModeMysql)
        (candidates
          ''CREATE UNIQUE INDEX idx ON t (col, b); ; CREATE TABLE u (id INT UNSIGNED);'') =
        map (\<lambda>d. Return (Inr d)) [?i, ?u]"
      by (simp add: cb u i)
  qed
  from first second show ?thesis by (intro conjI)
qed

end
